theory Spec2Isabelle
  imports Main "HOL-Library.Word"
begin

section \<open>Values shared by both packages\<close>

text \<open>
  A Go \<^verbatim>\<open>string\<close> and a Go \<^verbatim>\<open>[]byte\<close> are both sequences of 8-bit bytes, as an
  Isabelle \<open>string\<close> is; the conversion \<^verbatim>\<open>[]byte(s)\<close> is the identity on them. A Go
  \<^verbatim>\<open>error\<close> is represented by its message; the nil error is \<open>None\<close> of
  \<open>error option\<close>.
\<close>

type_synonym bytes = string
type_synonym error = string

text \<open>
  A Go call either returns its results or panics. Functions of this repository return a
  pair (pointer, error); both components are kept, so that a result with a non-nil
  pointer and a non-nil error is expressible.
\<close>

datatype 'a exec = Panic | Return 'a

section \<open>Package config\<close>

text \<open>\<^verbatim>\<open>ConfigMap\<close> (config package, lines 13-27).\<close>

record ConfigMap =
  DbName :: string
  DbHost :: string
  DbUser :: string
  Password :: string
  SSLMode :: string
  SSLCertFile :: string
  SSLKeyFile :: string
  SSLKeyFilePassPhrase :: string
  SSLCAFile :: string
  SSLHostname :: string
  ServerPort :: "16 word"
  DbPort :: "16 word"
  MaxConns :: "8 word"

text \<open>
  What reflection shows of a \<^verbatim>\<open>ConfigMap\<close>: for each field, in declaration order, its
  name, its struct tag as key/value pairs, and its value. Every field carries the one
  tag \<^verbatim>\<open>validate:"required"\<close>.
\<close>

datatype fieldval = StringVal string | UintVal nat

type_synonym structfield = "string \<times> (string \<times> string) list \<times> fieldval"

definition ConfigMap_fields :: "ConfigMap \<Rightarrow> structfield list" where
  "ConfigMap_fields c =
    [(''DbName'', [(''validate'', ''required'')], StringVal (DbName c)),
     (''DbHost'', [(''validate'', ''required'')], StringVal (DbHost c)),
     (''DbUser'', [(''validate'', ''required'')], StringVal (DbUser c)),
     (''Password'', [(''validate'', ''required'')], StringVal (Password c)),
     (''SSLMode'', [(''validate'', ''required'')], StringVal (SSLMode c)),
     (''SSLCertFile'', [(''validate'', ''required'')], StringVal (SSLCertFile c)),
     (''SSLKeyFile'', [(''validate'', ''required'')], StringVal (SSLKeyFile c)),
     (''SSLKeyFilePassPhrase'', [(''validate'', ''required'')],
        StringVal (SSLKeyFilePassPhrase c)),
     (''SSLCAFile'', [(''validate'', ''required'')], StringVal (SSLCAFile c)),
     (''SSLHostname'', [(''validate'', ''required'')], StringVal (SSLHostname c)),
     (''ServerPort'', [(''validate'', ''required'')], UintVal (unat (ServerPort c))),
     (''DbPort'', [(''validate'', ''required'')], UintVal (unat (DbPort c))),
     (''MaxConns'', [(''validate'', ''required'')], UintVal (unat (MaxConns c)))]"

subsection \<open>The validation library\<close>

text \<open>
  \<^verbatim>\<open>govalidator.ValidateStruct\<close> belongs to the imported package
  \<^verbatim>\<open>github.com/asaskevich/govalidator\<close>, whose code is not part of this repository. It
  is modelled from that package's documented behaviour: the rules of a field are read
  from the struct tag with the key \<^verbatim>\<open>valid\<close>; a field of a basic kind whose
  \<^verbatim>\<open>valid\<close> tag is empty is accepted unchecked, unless the process-wide switch
  \<^verbatim>\<open>SetFieldsRequiredByDefault(true)\<close> was thrown, in which case it is an error; the
  tag \<^verbatim>\<open>-\<close> skips the field. What the rules of a non-empty tag decide is left to the
  parameter \<open>checkTagged\<close> (field name, tag, value); the text of the errors is left to
  \<open>noRuleError\<close> (field name) and \<open>Errors_Error\<close> (the errors of all fields).
\<close>

record govalidator =
  fieldsRequiredByDefault :: bool
  noRuleError :: "string \<Rightarrow> error"
  checkTagged :: "string \<Rightarrow> string \<Rightarrow> fieldval \<Rightarrow> error option"
  Errors_Error :: "error list \<Rightarrow> error"

definition Tag_Get :: "(string \<times> string) list \<Rightarrow> string \<Rightarrow> string" where
  \<comment> \<open>\<^verbatim>\<open>reflect.StructTag.Get\<close>: the value of the key, the empty string when absent\<close>
  "Tag_Get tags key = (case map_of tags key of None \<Rightarrow> [] | Some v \<Rightarrow> v)"

definition typeCheck :: "govalidator \<Rightarrow> structfield \<Rightarrow> error option" where
  "typeCheck g f =
    (case f of (name, tags, v) \<Rightarrow>
      (let tag = Tag_Get tags ''valid'' in
       if tag = [] then
         (if \<not> fieldsRequiredByDefault g then None
          else Some (noRuleError g name))
       else if tag = ''-'' then None
       else checkTagged g name tag v))"

definition ValidateStruct :: "govalidator \<Rightarrow> structfield list \<Rightarrow> bool \<times> error option" where
  "ValidateStruct g fs =
    (let errs = List.map_filter (typeCheck g) fs
     in (errs = [], if errs = [] then None else Some (Errors_Error g errs)))"

text \<open>\<^verbatim>\<open>(*ConfigMap).validate\<close> (config package, lines 86-89): the boolean is dropped.\<close>

definition validate :: "govalidator \<Rightarrow> ConfigMap \<Rightarrow> error option" where
  "validate g c = (case ValidateStruct g (ConfigMap_fields c) of (_, err) \<Rightarrow> err)"

section \<open>Package pgxtls\<close>

subsection \<open>Types of the imported packages\<close>

text \<open>A \<^verbatim>\<open>context.Context\<close>, as far as a dialler could look at it.\<close>

record Context =
  ctx_done :: bool
  ctx_deadline :: "nat option"

datatype net_Conn = NetConn nat
datatype pgx_Conn = PgxConn nat
datatype Pool = PoolHandle nat

type_synonym AfterConnectFunc = "Context \<Rightarrow> pgx_Conn \<Rightarrow> error option"

text \<open>\<^verbatim>\<open>pem.Block\<close>; a nil header map is the empty map.\<close>

record Block =
  Type :: string
  Headers :: "string \<rightharpoonup> string"
  Bytes :: bytes

text \<open>
  \<^verbatim>\<open>tls.Certificate\<close>: the DER chain (the Go field \<^verbatim>\<open>Certificate\<close>) and the
  private key.
\<close>

record Certificate =
  CertificateChain :: "bytes list"
  PrivateKey :: bytes

text \<open>
  \<^verbatim>\<open>x509.CertPool\<close>, seen as the set of the (DER) certificates in it.
\<close>

type_synonym CertPool = "bytes set"

text \<open>\<^verbatim>\<open>tls.Config\<close>, the four fields this package touches; the others keep their zero value.\<close>

record TLSConfig =
  Certificates :: "Certificate list"
  RootCAs :: "CertPool option"
  ServerName :: string
  InsecureSkipVerify :: bool

text \<open>
  \<^verbatim>\<open>pgx.ConnConfig\<close> and \<^verbatim>\<open>pgxpool.Config\<close>: the fields this package assigns, and the
  connection string the configuration was parsed from.
\<close>

record ConnConfig =
  ConnString :: string
  DialFunc :: "Context \<Rightarrow> string \<Rightarrow> string \<Rightarrow> error + net_Conn"
  PreferSimpleProtocol :: bool
  ConnectTimeout :: int
  TLSConfig :: "TLSConfig option"

record Config =
  ConnConfig :: ConnConfig
  AfterConnect :: "AfterConnectFunc option"

subsection \<open>The host and the imported packages\<close>

text \<open>
  Everything \<^verbatim>\<open>pool.go\<close> calls outside this repository is a parameter: the file system
  (\<^verbatim>\<open>ioutil.ReadFile\<close>), \<^verbatim>\<open>pgxpool.ParseConfig\<close> and \<^verbatim>\<open>pgxpool.ConnectConfig\<close>,
  \<^verbatim>\<open>x509.SystemCertPool\<close>, the certificates \<^verbatim>\<open>AppendCertsFromPEM\<close> finds in a bundle,
  \<^verbatim>\<open>pem.Decode\<close> (its first result) and \<^verbatim>\<open>pem.EncodeToMemory\<close>, the cipher work of
  \<^verbatim>\<open>x509.DecryptPEMBlock\<close> (DEK-Info value, ciphertext, password), \<^verbatim>\<open>tls.X509KeyPair\<close>
  and \<^verbatim>\<open>net.Dial\<close>. A library call that returns (value, error) is a sum, \<open>Inl\<close> the
  error.
\<close>

record env =
  ReadFile :: "string \<Rightarrow> error + bytes"
  ParseConfig :: "string \<Rightarrow> error + Config"
  ConnectConfig :: "Context \<Rightarrow> Config \<Rightarrow> error + Pool"
  SystemCertPool :: "error + CertPool"
  certsFromPEM :: "bytes \<Rightarrow> bytes list"
  pem_Decode :: "bytes \<Rightarrow> Block option"
  pem_EncodeToMemory :: "Block \<Rightarrow> bytes"
  decryptRFC1423 :: "string \<Rightarrow> bytes \<Rightarrow> bytes \<Rightarrow> error + bytes"
  X509KeyPair :: "bytes \<Rightarrow> bytes \<Rightarrow> error + Certificate"
  net_Dial :: "string \<Rightarrow> string \<Rightarrow> error + net_Conn"

text \<open>
  \<^verbatim>\<open>x509.NewCertPool\<close> and \<^verbatim>\<open>(*CertPool).AppendCertsFromPEM\<close>: the certificates
  found are added, and the result tells whether any was.
\<close>

definition NewCertPool :: CertPool where
  "NewCertPool = {}"

definition AppendCertsFromPEM :: "env \<Rightarrow> CertPool \<Rightarrow> bytes \<Rightarrow> CertPool \<times> bool" where
  "AppendCertsFromPEM e s pemCerts =
    (s \<union> set (certsFromPEM e pemCerts), certsFromPEM e pemCerts \<noteq> [])"

text \<open>
  \<^verbatim>\<open>x509.DecryptPEMBlock(b *pem.Block, password)\<close> starts by reading
  \<^verbatim>\<open>b.Headers["DEK-Info"]\<close>: on a nil block that is a nil-pointer dereference, and on a
  block without the header it returns an error. Only then does it decrypt.
\<close>

definition x509_DecryptPEMBlock :: "env \<Rightarrow> Block option \<Rightarrow> bytes \<Rightarrow> (error + bytes) exec" where
  "x509_DecryptPEMBlock e b password =
    (case b of
       None \<Rightarrow> Panic
     | Some blk \<Rightarrow>
        (case Headers blk ''DEK-Info'' of
           None \<Rightarrow> Return (Inl ''x509: no DEK-Info header in block'')
         | Some dek \<Rightarrow> Return (decryptRFC1423 e dek (Bytes blk) password)))"

text \<open>\<^verbatim>\<open>fmt\<close>: the verb \<^verbatim>\<open>%v\<close> on an error, and \<^verbatim>\<open>%d\<close> on an unsigned integer.\<close>

definition fmt_v :: "error option \<Rightarrow> string" where
  "fmt_v err = (case err of None \<Rightarrow> ''<nil>'' | Some msg \<Rightarrow> msg)"

fun fmt_d :: "nat \<Rightarrow> string" where
  "fmt_d n = (if n < 10 then [''0123456789'' ! n]
              else fmt_d (n div 10) @ [''0123456789'' ! (n mod 10)])"

declare fmt_d.simps [simp del]

subsection \<open>withPassphrase (pool.go, lines 91-122)\<close>

definition withPassphrase ::
  "env \<Rightarrow> string \<Rightarrow> string \<Rightarrow> bytes \<Rightarrow> (Certificate option \<times> error option) exec" where
  "withPassphrase e pathToCert pathToKey password =
    (case ReadFile e pathToKey of
       Inl err \<Rightarrow> Return (None, Some err)
     | Inr keyFile \<Rightarrow>
    (case ReadFile e pathToCert of
       Inl err \<Rightarrow> Return (None, Some err)
     | Inr certFile \<Rightarrow>
    (let keyBlock = pem_Decode e keyFile in
     case x509_DecryptPEMBlock e keyBlock password of
       Panic \<Rightarrow> Panic
     | Return (Inl err) \<Rightarrow> Return (None, Some err)
     | Return (Inr keyDER) \<Rightarrow>
        (case keyBlock of
           None \<Rightarrow> Panic
         | Some kb \<Rightarrow>
            (let keyBlock' = kb\<lparr>Bytes := keyDER, Headers := Map.empty\<rparr> in
             case X509KeyPair e certFile (pem_EncodeToMemory e keyBlock') of
               Inl err \<Rightarrow> Return (None, Some err)
             | Inr cert \<Rightarrow> Return (Some cert, None))))))"

subsection \<open>NewFromCfgMap (pool.go, lines 22-85)\<close>

text \<open>Lines 24-30: the connection string.\<close>

definition NewFromCfgMap_uri :: "ConfigMap \<Rightarrow> string" where
  "NewFromCfgMap_uri config =
    ''postgres://'' @ DbUser config @ '':'' @ Password config @ ''@'' @ DbHost config
      @ '':'' @ fmt_d (unat (DbPort config)) @ ''/'' @ DbName config
      @ ''?sslmode='' @ SSLMode config
      @ ''&pool_max_conns='' @ fmt_d (unat (MaxConns config))"

text \<open>
  Lines 45-61: the certificate pool, or the error the function returns with. With an
  empty \<^verbatim>\<open>SSLCAFile\<close> the \<^verbatim>\<open>return\<close> of line 49 follows the call of line 48
  unconditionally.
\<close>

definition NewFromCfgMap_xPool :: "env \<Rightarrow> ConfigMap \<Rightarrow> error + CertPool" where
  "NewFromCfgMap_xPool e config =
    (if SSLCAFile config = [] then
       (let err = (case SystemCertPool e of Inl x \<Rightarrow> Some x | Inr _ \<Rightarrow> None)
        in Inl (''unable to retrieve system cert pool: '' @ fmt_v err))
     else
       (case ReadFile e (SSLCAFile config) of
          Inl err \<Rightarrow> Inl err
        | Inr CAcert \<Rightarrow>
           (case AppendCertsFromPEM e NewCertPool CAcert of
              (xPool, ok) \<Rightarrow>
                if \<not> ok then Inl ''can't add ca cert to cert pool'' else Inr xPool)))"

text \<open>Lines 68-77: the TLS configuration.\<close>

definition NewFromCfgMap_TLSConfig :: "ConfigMap \<Rightarrow> Certificate \<Rightarrow> CertPool \<Rightarrow> TLSConfig" where
  "NewFromCfgMap_TLSConfig config cert xPool =
    (let t = \<lparr>Certificates = [cert], RootCAs = Some xPool,
              ServerName = [], InsecureSkipVerify = False\<rparr>
     in if SSLHostname config \<noteq> [] then t\<lparr>ServerName := SSLHostname config\<rparr>
        else t\<lparr>InsecureSkipVerify := True\<rparr>)"

text \<open>
  Lines 24-77: the configuration handed to \<^verbatim>\<open>pool.ConnectConfig\<close>, or the error the
  function returns with before it gets there. \<^verbatim>\<open>time.Minute\<close> is 60 000 000 000 ns.
\<close>

definition NewFromCfgMap_cfg ::
  "env \<Rightarrow> ConfigMap \<Rightarrow> AfterConnectFunc option \<Rightarrow> (error + Config) exec" where
  "NewFromCfgMap_cfg e config fn =
    (case ParseConfig e (NewFromCfgMap_uri config) of
       Inl err \<Rightarrow> Return (Inl err)
     | Inr cfg0 \<Rightarrow>
    (let cfg1 = cfg0\<lparr>AfterConnect := fn\<rparr>;
         cfg2 = cfg1\<lparr>ConnConfig := (ConnConfig cfg1)
                  \<lparr>DialFunc := (\<lambda>ctx host addr. net_Dial e host addr)\<rparr>\<rparr>;
         cfg3 = cfg2\<lparr>ConnConfig := (ConnConfig cfg2)\<lparr>PreferSimpleProtocol := True\<rparr>\<rparr>;
         cfg4 = cfg3\<lparr>ConnConfig := (ConnConfig cfg3)\<lparr>ConnectTimeout := 60000000000\<rparr>\<rparr>
     in
     case NewFromCfgMap_xPool e config of
       Inl err \<Rightarrow> Return (Inl err)
     | Inr xPool \<Rightarrow>
    (case withPassphrase e (SSLCertFile config) (SSLKeyFile config)
            (SSLKeyFilePassPhrase config) of
       Panic \<Rightarrow> Panic
     | Return (_, Some err) \<Rightarrow> Return (Inl err)
     | Return (None, None) \<Rightarrow> Panic
     | Return (Some cert, None) \<Rightarrow>
         Return (Inr (cfg4\<lparr>ConnConfig := (ConnConfig cfg4)
                   \<lparr>TLSConfig := Some (NewFromCfgMap_TLSConfig config cert xPool)\<rparr>\<rparr>)))))"

definition NewFromCfgMap ::
  "env \<Rightarrow> Context \<Rightarrow> ConfigMap \<Rightarrow> AfterConnectFunc option
     \<Rightarrow> (Pool option \<times> error option) exec" where
  "NewFromCfgMap e ctx config fn =
    (case NewFromCfgMap_cfg e config fn of
       Panic \<Rightarrow> Panic
     | Return (Inl err) \<Rightarrow> Return (None, Some err)
     | Return (Inr cfg) \<Rightarrow>
        (case ConnectConfig e ctx cfg of
           Inl err \<Rightarrow> Return (None, Some err)
         | Inr pool \<Rightarrow> Return (Some pool, None)))"


section \<open>A sample host\<close>

text \<open>
  A concrete host on which the functions above can be run: a CA bundle with two
  certificates and one with none, a client certificate, a key encrypted under the
  passphrase \<open>secret\<close>, a key encrypted under the empty passphrase, a key that is
  not encrypted, a key in raw DER (no PEM block) and an empty key file; a usable system
  trust store; and a database that accepts every connection. The legacy PEM encryption
  carries no integrity check: \<^verbatim>\<open>x509.DecryptPEMBlock\<close> recognises a wrong password
  only by the padding of the last block, so some wrong passwords decrypt to noise
  without an error. On this host \<open>wrong281\<close> is such a password for the first key,
  and \<^verbatim>\<open>tls.X509KeyPair\<close> cannot parse the noise.
\<close>

definition demo_cfg0 :: "string \<Rightarrow> Config" where
  "demo_cfg0 uri =
    \<lparr>ConnConfig = \<lparr>ConnString = uri, DialFunc = (\<lambda>ctx host addr. Inl ''no dialer''),
                   PreferSimpleProtocol = False, ConnectTimeout = 0, TLSConfig = None\<rparr>,
     AfterConnect = None\<rparr>"

definition demo_files :: "string \<Rightarrow> error + bytes" where
  "demo_files path =
    (if path = ''ca.pem'' then Inr ''CA-BUNDLE''
     else if path = ''none.pem'' then Inr ''hello''
     else if path = ''client.crt'' then Inr ''CERT''
     else if path = ''client.key'' then Inr ''ENC-KEY''
     else if path = ''plain.key'' then Inr ''PLAIN-KEY''
     else if path = ''nopass.key'' then Inr ''ENC-KEY-0''
     else if path = ''der.key'' then Inr ''raw-der''
     else if path = ''empty.key'' then Inr []
     else Inl (''open '' @ path @ '': no such file or directory''))"

definition demo_pem_Decode :: "bytes \<Rightarrow> Block option" where
  "demo_pem_Decode d =
    (if d = ''ENC-KEY'' then
       Some \<lparr>Type = ''RSA PRIVATE KEY'',
             Headers = [''Proc-Type'' \<mapsto> ''4,ENCRYPTED'', ''DEK-Info'' \<mapsto> ''AES-128-CBC,00''],
             Bytes = ''xyz''\<rparr>
     else if d = ''ENC-KEY-0'' then
       Some \<lparr>Type = ''RSA PRIVATE KEY'',
             Headers = [''Proc-Type'' \<mapsto> ''4,ENCRYPTED'', ''DEK-Info'' \<mapsto> ''AES-128-CBC,01''],
             Bytes = ''uvw''\<rparr>
     else if d = ''PLAIN-KEY'' then
       Some \<lparr>Type = ''RSA PRIVATE KEY'', Headers = Map.empty, Bytes = ''der''\<rparr>
     else None)"

definition demo_host :: env where
  "demo_host =
    \<lparr>ReadFile = demo_files,
     ParseConfig = (\<lambda>uri. Inr (demo_cfg0 uri)),
     ConnectConfig = (\<lambda>ctx cfg. Inr (PoolHandle 1)),
     SystemCertPool = Inr {''ROOT''},
     certsFromPEM = (\<lambda>d. if d = ''CA-BUNDLE'' then [''CA1'', ''CA2''] else []),
     pem_Decode = demo_pem_Decode,
     pem_EncodeToMemory = (\<lambda>b. Type b @ '':'' @ Bytes b),
     decryptRFC1423 = (\<lambda>dek data pw.
        if data = ''xyz'' \<and> pw = ''secret'' then Inr ''der''
        else if data = ''xyz'' \<and> pw = ''wrong281'' then Inr ''noise''
        else if data = ''uvw'' \<and> pw = [] then Inr ''der0''
        else Inl ''x509: decryption password incorrect''),
     X509KeyPair = (\<lambda>c k.
        if k = ''RSA PRIVATE KEY:noise'' then Inl ''tls: failed to parse private key''
        else Inr \<lparr>CertificateChain = [c], PrivateKey = k\<rparr>),
     net_Dial = (\<lambda>network addr. Inr (NetConn 7))\<rparr>"

definition demo_config :: ConfigMap where
  "demo_config =
    \<lparr>DbName = ''db'', DbHost = ''localhost'', DbUser = ''u'', Password = ''p'',
     SSLMode = ''verify-full'', SSLCertFile = ''client.crt'', SSLKeyFile = ''client.key'',
     SSLKeyFilePassPhrase = ''secret'', SSLCAFile = ''ca.pem'', SSLHostname = ''db.local'',
     ServerPort = 8080, DbPort = 5432, MaxConns = 10\<rparr>"

definition demo_ctx :: Context where
  "demo_ctx = \<lparr>ctx_done = False, ctx_deadline = None\<rparr>"

definition demo_govalidator :: govalidator where
  "demo_govalidator =
    \<lparr>fieldsRequiredByDefault = False,
     noRuleError = (\<lambda>name. name @ '': no rule''),
     checkTagged = (\<lambda>name tag v.
        if tag = ''required'' \<and> (v = StringVal [] \<or> v = UintVal 0)
        then Some (name @ '': non zero value required'') else None),
     Errors_Error = concat\<rparr>"

section \<open>Properties of the identity loader\<close>

lemma withPassphrase_read:
  assumes "ReadFile e pathToKey = Inr keyFile" "ReadFile e pathToCert = Inr certFile"
  shows "withPassphrase e pathToCert pathToKey password =
    (case x509_DecryptPEMBlock e (pem_Decode e keyFile) password of
       Panic \<Rightarrow> Panic
     | Return (Inl err) \<Rightarrow> Return (None, Some err)
     | Return (Inr keyDER) \<Rightarrow>
        (case pem_Decode e keyFile of
           None \<Rightarrow> Panic
         | Some kb \<Rightarrow>
            (case X509KeyPair e certFile
                    (pem_EncodeToMemory e (kb\<lparr>Bytes := keyDER, Headers := Map.empty\<rparr>)) of
               Inl err \<Rightarrow> Return (None, Some err)
             | Inr cert \<Rightarrow> Return (Some cert, None))))"
  using assms
  by (simp add: withPassphrase_def Let_def split: exec.splits sum.splits option.splits)

lemma withPassphrase_no_block:
  assumes "ReadFile e pathToKey = Inr keyFile" "ReadFile e pathToCert = Inr certFile"
    and "pem_Decode e keyFile = None"
  shows "withPassphrase e pathToCert pathToKey password = Panic"
  using assms by (simp add: withPassphrase_read x509_DecryptPEMBlock_def)

lemma withPassphrase_results:
  "withPassphrase e pathToCert pathToKey password = Panic
   \<or> (\<exists>err. withPassphrase e pathToCert pathToKey password = Return (None, Some err))
   \<or> (\<exists>cert. withPassphrase e pathToCert pathToKey password = Return (Some cert, None))"
  by (simp add: withPassphrase_def Let_def split: exec.splits sum.splits option.splits)

lemma demo_withPassphrase:
  "withPassphrase demo_host ''client.crt'' ''client.key'' ''secret''
     = Return (Some \<lparr>CertificateChain = [''CERT''], PrivateKey = ''RSA PRIVATE KEY:der''\<rparr>, None)"
  by (simp add: withPassphrase_def x509_DecryptPEMBlock_def demo_host_def demo_files_def
      demo_pem_Decode_def)

text \<open>
  Claim C3. A key file in which no PEM block can be found is to make the identity
  loader return a format error, without a crash and without going on to decryption.
  The code does not test the block \<^verbatim>\<open>pem.Decode\<close> returns: on the sample host's empty
  key file the nil block goes to \<^verbatim>\<open>x509.DecryptPEMBlock\<close>, and the call panics
  instead of returning.
\<close>

theorem withPassphrase_without_PEM_block_panics:
  "pem_Decode demo_host [] = None
   \<and> withPassphrase demo_host ''client.crt'' ''empty.key'' ''secret'' = Panic"
  by (simp add: withPassphrase_def x509_DecryptPEMBlock_def demo_host_def demo_files_def
      demo_pem_Decode_def)

lemma withPassphrase_unencrypted_block:
  assumes "ReadFile e pathToKey = Inr keyFile"
    and "ReadFile e pathToCert = Inr certFile"
    and "pem_Decode e keyFile = Some kb"
    and "Headers kb ''DEK-Info'' = None"
  shows "withPassphrase e pathToCert pathToKey password
           = Return (None, Some ''x509: no DEK-Info header in block'')"
  using assms by (simp add: withPassphrase_read x509_DecryptPEMBlock_def)

text \<open>
  Claim C4. A passphrase that does not decrypt the key is to make the identity loader
  fail with a decryption error. That holds only where \<^verbatim>\<open>x509.DecryptPEMBlock\<close> notices:
  on the sample host the key of \<open>client.key\<close> decrypts to \<open>der\<close> under \<open>secret\<close>,
  the wrong passphrase \<open>wrong281\<close> decrypts it to noise with no error, and the loader
  fails in \<^verbatim>\<open>tls.X509KeyPair\<close>, with the error of the pairing step.
\<close>

theorem withPassphrase_undetected_wrong_passphrase:
  "x509_DecryptPEMBlock demo_host (pem_Decode demo_host ''ENC-KEY'') ''secret''
     = Return (Inr ''der'')
   \<and> x509_DecryptPEMBlock demo_host (pem_Decode demo_host ''ENC-KEY'') ''wrong281''
     = Return (Inr ''noise'')
   \<and> withPassphrase demo_host ''client.crt'' ''client.key'' ''wrong281''
     = Return (None, Some ''tls: failed to parse private key'')"
  by (simp add: withPassphrase_def x509_DecryptPEMBlock_def demo_host_def demo_files_def
      demo_pem_Decode_def)

text \<open>
  Claim C4, as amended. For a key file that holds a PEM block: when
  \<^verbatim>\<open>x509.DecryptPEMBlock\<close> reports an error (it notices the wrong passphrase, or the
  block is not in a recognised encrypted format), the identity loader returns that
  error and no identity; when decryption reports none and \<^verbatim>\<open>tls.X509KeyPair\<close> rejects
  the decrypted bytes, the loader returns the error of the pairing step and no identity;
  an identity is returned only when decryption reported no error and the pairing step
  accepted its bytes; and an identity is never returned together with an error.
\<close>

theorem withPassphrase_identity_only_through_decryption:
  assumes "ReadFile e pathToKey = Inr keyFile"
    and "ReadFile e pathToCert = Inr certFile"
    and "pem_Decode e keyFile = Some kb"
  shows "(\<forall>err. x509_DecryptPEMBlock e (Some kb) password = Return (Inl err) \<longrightarrow>
            withPassphrase e pathToCert pathToKey password = Return (None, Some err))
       \<and> (\<forall>keyDER err.
            x509_DecryptPEMBlock e (Some kb) password = Return (Inr keyDER)
            \<and> X509KeyPair e certFile
                (pem_EncodeToMemory e \<lparr>Type = Type kb, Headers = Map.empty, Bytes = keyDER\<rparr>)
                = Inl err \<longrightarrow>
            withPassphrase e pathToCert pathToKey password = Return (None, Some err))
       \<and> (\<forall>cert. withPassphrase e pathToCert pathToKey password = Return (Some cert, None) \<longrightarrow>
            (\<exists>keyDER. x509_DecryptPEMBlock e (Some kb) password = Return (Inr keyDER)
               \<and> X509KeyPair e certFile
                   (pem_EncodeToMemory e
                      \<lparr>Type = Type kb, Headers = Map.empty, Bytes = keyDER\<rparr>) = Inr cert))
       \<and> (\<forall>cert err. withPassphrase e pathToCert pathToKey password
                        \<noteq> Return (Some cert, Some err))"
proof -
  have upd: "\<And>keyDER. kb\<lparr>Bytes := keyDER, Headers := Map.empty\<rparr>
      = \<lparr>Type = Type kb, Headers = Map.empty, Bytes = keyDER\<rparr>"
    by (cases kb) simp
  have w: "withPassphrase e pathToCert pathToKey password =
    (case x509_DecryptPEMBlock e (Some kb) password of
       Panic \<Rightarrow> Panic
     | Return (Inl err) \<Rightarrow> Return (None, Some err)
     | Return (Inr keyDER) \<Rightarrow>
        (case X509KeyPair e certFile
                (pem_EncodeToMemory e
                   \<lparr>Type = Type kb, Headers = Map.empty, Bytes = keyDER\<rparr>) of
           Inl err \<Rightarrow> Return (None, Some err)
         | Inr cert \<Rightarrow> Return (Some cert, None)))"
    using assms by (simp add: withPassphrase_read upd split: exec.splits sum.splits)
  have a: "\<forall>err. x509_DecryptPEMBlock e (Some kb) password = Return (Inl err) \<longrightarrow>
            withPassphrase e pathToCert pathToKey password = Return (None, Some err)"
    by (simp add: w)
  have b: "\<forall>keyDER err.
            x509_DecryptPEMBlock e (Some kb) password = Return (Inr keyDER)
            \<and> X509KeyPair e certFile
                (pem_EncodeToMemory e \<lparr>Type = Type kb, Headers = Map.empty, Bytes = keyDER\<rparr>)
                = Inl err \<longrightarrow>
            withPassphrase e pathToCert pathToKey password = Return (None, Some err)"
    by (simp add: w)
  have c: "\<forall>cert. withPassphrase e pathToCert pathToKey password = Return (Some cert, None) \<longrightarrow>
            (\<exists>keyDER. x509_DecryptPEMBlock e (Some kb) password = Return (Inr keyDER)
               \<and> X509KeyPair e certFile
                   (pem_EncodeToMemory e
                      \<lparr>Type = Type kb, Headers = Map.empty, Bytes = keyDER\<rparr>) = Inr cert)"
    by (auto simp: w split: exec.splits sum.splits)
  have d: "\<forall>cert err. withPassphrase e pathToCert pathToKey password
                        \<noteq> Return (Some cert, Some err)"
    by (auto simp: w split: exec.splits sum.splits)
  from a b c d show ?thesis by blast
qed

theorem withPassphrase_identity_only_through_decryption_witness:
  "ReadFile demo_host ''client.key'' = Inr ''ENC-KEY''
   \<and> ReadFile demo_host ''client.crt'' = Inr ''CERT''
   \<and> pem_Decode demo_host ''ENC-KEY''
        = Some \<lparr>Type = ''RSA PRIVATE KEY'',
                 Headers = [''Proc-Type'' \<mapsto> ''4,ENCRYPTED'', ''DEK-Info'' \<mapsto> ''AES-128-CBC,00''],
                 Bytes = ''xyz''\<rparr>
   \<and> x509_DecryptPEMBlock demo_host (pem_Decode demo_host ''ENC-KEY'') ''wrong''
        = Return (Inl ''x509: decryption password incorrect'')
   \<and> withPassphrase demo_host ''client.crt'' ''client.key'' ''wrong''
        = Return (None, Some ''x509: decryption password incorrect'')
   \<and> x509_DecryptPEMBlock demo_host (pem_Decode demo_host ''ENC-KEY'') ''wrong281''
        = Return (Inr ''noise'')
   \<and> X509KeyPair demo_host ''CERT''
        (pem_EncodeToMemory demo_host
           \<lparr>Type = ''RSA PRIVATE KEY'', Headers = Map.empty, Bytes = ''noise''\<rparr>)
        = Inl ''tls: failed to parse private key''
   \<and> withPassphrase demo_host ''client.crt'' ''client.key'' ''wrong281''
        = Return (None, Some ''tls: failed to parse private key'')
   \<and> withPassphrase demo_host ''client.crt'' ''client.key'' ''secret''
        = Return (Some \<lparr>CertificateChain = [''CERT''], PrivateKey = ''RSA PRIVATE KEY:der''\<rparr>,
                  None)
   \<and> x509_DecryptPEMBlock demo_host (pem_Decode demo_host ''ENC-KEY'') ''secret''
        = Return (Inr ''der'')"
proof -
  let ?kb = "\<lparr>Type = ''RSA PRIVATE KEY'',
              Headers = [''Proc-Type'' \<mapsto> ''4,ENCRYPTED'', ''DEK-Info'' \<mapsto> ''AES-128-CBC,00''],
              Bytes = ''xyz''\<rparr>"
  have k: "ReadFile demo_host ''client.key'' = Inr ''ENC-KEY''"
    by (simp add: demo_host_def demo_files_def)
  have c: "ReadFile demo_host ''client.crt'' = Inr ''CERT''"
    by (simp add: demo_host_def demo_files_def)
  have d: "pem_Decode demo_host ''ENC-KEY'' = Some ?kb"
    by (simp add: demo_host_def demo_pem_Decode_def)
  have x1: "x509_DecryptPEMBlock demo_host (Some ?kb) ''wrong''
        = Return (Inl ''x509: decryption password incorrect'')"
    by (simp add: x509_DecryptPEMBlock_def demo_host_def)
  have x2: "x509_DecryptPEMBlock demo_host (Some ?kb) ''wrong281'' = Return (Inr ''noise'')"
    by (simp add: x509_DecryptPEMBlock_def demo_host_def)
  have x3: "x509_DecryptPEMBlock demo_host (Some ?kb) ''secret'' = Return (Inr ''der'')"
    by (simp add: x509_DecryptPEMBlock_def demo_host_def)
  have p: "X509KeyPair demo_host ''CERT''
        (pem_EncodeToMemory demo_host
           \<lparr>Type = ''RSA PRIVATE KEY'', Headers = Map.empty, Bytes = ''noise''\<rparr>)
        = Inl ''tls: failed to parse private key''"
    by (simp add: demo_host_def)
  have r1: "withPassphrase demo_host ''client.crt'' ''client.key'' ''wrong''
        = Return (None, Some ''x509: decryption password incorrect'')"
    using withPassphrase_identity_only_through_decryption [OF k c d, of "''wrong''"] x1
    by simp
  have r2: "withPassphrase demo_host ''client.crt'' ''client.key'' ''wrong281''
        = Return (None, Some ''tls: failed to parse private key'')"
    using withPassphrase_identity_only_through_decryption [OF k c d, of "''wrong281''"] x2 p
    by simp
  have r3: "withPassphrase demo_host ''client.crt'' ''client.key'' ''secret''
        = Return (Some \<lparr>CertificateChain = [''CERT''], PrivateKey = ''RSA PRIVATE KEY:der''\<rparr>,
                  None)"
    by (rule demo_withPassphrase)
  have r4: "x509_DecryptPEMBlock demo_host (pem_Decode demo_host ''ENC-KEY'') ''secret''
        = Return (Inr ''der'')"
    using withPassphrase_identity_only_through_decryption [OF k c d, of "''secret''"] r3 x3 d
    by simp
  show ?thesis using k c d x1 x2 p r1 r2 r3 r4 by simp
qed

text \<open>
  Claim C8. For every key file and every passphrase, a key that is not encrypted is to
  make the identity loader report an error to its caller. For a key in a PEM block
  without encryption headers it does, whatever the passphrase
  (\<open>withPassphrase_unencrypted_block\<close>). A key file that is not encrypted and holds no
  PEM block, as the raw DER key of the sample host, makes the loader pass a nil block to
  \<^verbatim>\<open>x509.DecryptPEMBlock\<close>: with the empty passphrase as with any other, the call
  panics and no error is reported.
\<close>

theorem withPassphrase_unencrypted_DER_key_panics:
  "ReadFile demo_host ''der.key'' = Inr ''raw-der''
   \<and> pem_Decode demo_host ''raw-der'' = None
   \<and> withPassphrase demo_host ''client.crt'' ''der.key'' [] = Panic
   \<and> withPassphrase demo_host ''client.crt'' ''der.key'' ''secret'' = Panic
   \<and> withPassphrase demo_host ''client.crt'' ''plain.key'' []
       = Return (None, Some ''x509: no DEK-Info header in block'')"
  by (simp add: withPassphrase_def x509_DecryptPEMBlock_def demo_host_def demo_files_def
      demo_pem_Decode_def)

section \<open>Properties of the pool initializer\<close>

lemma NewFromCfgMap_cfg_parsed:
  assumes "NewFromCfgMap_cfg e config fn = Return (Inr cfg)"
  obtains cfg0 xPool cert where
    "ParseConfig e (NewFromCfgMap_uri config) = Inr cfg0"
    "NewFromCfgMap_xPool e config = Inr xPool"
    "withPassphrase e (SSLCertFile config) (SSLKeyFile config) (SSLKeyFilePassPhrase config)
       = Return (Some cert, None)"
    "cfg = cfg0\<lparr>AfterConnect := fn,
                ConnConfig := (ConnConfig cfg0)
                  \<lparr>DialFunc := (\<lambda>ctx host addr. net_Dial e host addr),
                   PreferSimpleProtocol := True,
                   ConnectTimeout := 60000000000,
                   TLSConfig := Some (NewFromCfgMap_TLSConfig config cert xPool)\<rparr>\<rparr>"
  using assms
  by (auto simp: NewFromCfgMap_cfg_def Let_def
      split: sum.splits exec.splits prod.splits option.splits)

lemma NewFromCfgMap_results:
  "NewFromCfgMap e ctx config fn = Panic
   \<or> (\<exists>err. NewFromCfgMap e ctx config fn = Return (None, Some err))
   \<or> (\<exists>cfg pool. NewFromCfgMap_cfg e config fn = Return (Inr cfg)
         \<and> ConnectConfig e ctx cfg = Inr pool
         \<and> NewFromCfgMap e ctx config fn = Return (Some pool, None))"
  by (simp add: NewFromCfgMap_def split: exec.splits sum.splits)

lemma NewFromCfgMap_xPool_empty_CA:
  "SSLCAFile config = [] \<Longrightarrow>
     NewFromCfgMap_xPool e config =
       Inl (''unable to retrieve system cert pool: ''
             @ fmt_v (case SystemCertPool e of Inl x \<Rightarrow> Some x | Inr _ \<Rightarrow> None))"
  by (simp add: NewFromCfgMap_xPool_def)

lemma NewFromCfgMap_empty_CA:
  assumes "SSLCAFile config = []"
  shows "\<exists>err. NewFromCfgMap e ctx config fn = Return (None, Some err)"
  using assms
  by (simp add: NewFromCfgMap_def NewFromCfgMap_cfg_def NewFromCfgMap_xPool_empty_CA Let_def
      split: sum.splits)

lemma demo_xPool:
  "NewFromCfgMap_xPool demo_host (demo_config\<lparr>SSLHostname := h\<rparr>) = Inr {''CA1'', ''CA2''}"
  by (simp add: NewFromCfgMap_xPool_def AppendCertsFromPEM_def NewCertPool_def demo_host_def
      demo_files_def demo_config_def)

lemma demo_cfg_exists:
  "\<exists>cfg. NewFromCfgMap_cfg demo_host (demo_config\<lparr>SSLHostname := h\<rparr>) None = Return (Inr cfg)"
proof -
  have p: "\<And>uri. ParseConfig demo_host uri = Inr (demo_cfg0 uri)"
    by (simp add: demo_host_def)
  have w: "withPassphrase demo_host (SSLCertFile (demo_config\<lparr>SSLHostname := h\<rparr>))
      (SSLKeyFile (demo_config\<lparr>SSLHostname := h\<rparr>))
      (SSLKeyFilePassPhrase (demo_config\<lparr>SSLHostname := h\<rparr>))
     = Return (Some \<lparr>CertificateChain = [''CERT''], PrivateKey = ''RSA PRIVATE KEY:der''\<rparr>, None)"
    using demo_withPassphrase by (simp add: demo_config_def)
  show ?thesis
    unfolding NewFromCfgMap_cfg_def by (simp only: p w demo_xPool) (simp add: Let_def)
qed


text \<open>
  Claim C1. With an empty CA path the trust store is to be the system trust store, and
  on a host whose system store is usable the pool initializer is to get past building
  it. The code returns right after \<^verbatim>\<open>x509.SystemCertPool\<close>, whatever that call
  returned: on the sample host, whose system store is usable, the initializer returns
  an error that formats the nil error.
\<close>

theorem NewFromCfgMap_empty_CA_path_errors:
  "SystemCertPool demo_host = Inr {''ROOT''}
   \<and> NewFromCfgMap demo_host demo_ctx (demo_config\<lparr>SSLCAFile := []\<rparr>) None
       = Return (None, Some ''unable to retrieve system cert pool: <nil>'')"
  by (simp add: NewFromCfgMap_def NewFromCfgMap_cfg_def NewFromCfgMap_xPool_def demo_host_def
       demo_config_def fmt_v_def)

text \<open>
  Claim C2. In the TLS configuration the pool is opened with, the client identity is
  always present; a non-empty expected host name is set as the server name and
  verification stays on; an empty one switches verification of the server off.
\<close>

theorem NewFromCfgMap_verification_policy:
  assumes "NewFromCfgMap_cfg e config fn = Return (Inr cfg)"
  shows "\<exists>cert t.
      withPassphrase e (SSLCertFile config) (SSLKeyFile config) (SSLKeyFilePassPhrase config)
        = Return (Some cert, None)
    \<and> TLSConfig (ConnConfig cfg) = Some t
    \<and> Certificates t = [cert]
    \<and> (SSLHostname config \<noteq> [] \<longrightarrow>
          ServerName t = SSLHostname config \<and> \<not> InsecureSkipVerify t)
    \<and> (SSLHostname config = [] \<longrightarrow> InsecureSkipVerify t)"
proof -
  from assms obtain cfg0 xPool cert where
    w: "withPassphrase e (SSLCertFile config) (SSLKeyFile config) (SSLKeyFilePassPhrase config)
          = Return (Some cert, None)"
    and c: "cfg = cfg0\<lparr>AfterConnect := fn,
                ConnConfig := (ConnConfig cfg0)
                  \<lparr>DialFunc := (\<lambda>ctx host addr. net_Dial e host addr),
                   PreferSimpleProtocol := True,
                   ConnectTimeout := 60000000000,
                   TLSConfig := Some (NewFromCfgMap_TLSConfig config cert xPool)\<rparr>\<rparr>"
    by (rule NewFromCfgMap_cfg_parsed)
  let ?t = "NewFromCfgMap_TLSConfig config cert xPool"
  have "TLSConfig (ConnConfig cfg) = Some ?t" using c by simp
  moreover have "Certificates ?t = [cert]"
    by (simp add: NewFromCfgMap_TLSConfig_def Let_def)
  moreover have "SSLHostname config \<noteq> [] \<longrightarrow>
      ServerName ?t = SSLHostname config \<and> \<not> InsecureSkipVerify ?t"
    by (simp add: NewFromCfgMap_TLSConfig_def Let_def)
  moreover have "SSLHostname config = [] \<longrightarrow> InsecureSkipVerify ?t"
    by (simp add: NewFromCfgMap_TLSConfig_def Let_def)
  ultimately show ?thesis using w by blast
qed

theorem NewFromCfgMap_verification_policy_witness:
  "(\<exists>cfg t. NewFromCfgMap_cfg demo_host (demo_config\<lparr>SSLHostname := ''db.local''\<rparr>) None
               = Return (Inr cfg)
      \<and> TLSConfig (ConnConfig cfg) = Some t
      \<and> Certificates t = [\<lparr>CertificateChain = [''CERT''], PrivateKey = ''RSA PRIVATE KEY:der''\<rparr>]
      \<and> ServerName t = ''db.local'' \<and> \<not> InsecureSkipVerify t)
   \<and> (\<exists>cfg t. NewFromCfgMap_cfg demo_host (demo_config\<lparr>SSLHostname := []\<rparr>) None
               = Return (Inr cfg)
      \<and> TLSConfig (ConnConfig cfg) = Some t
      \<and> Certificates t = [\<lparr>CertificateChain = [''CERT''], PrivateKey = ''RSA PRIVATE KEY:der''\<rparr>]
      \<and> InsecureSkipVerify t)"
proof -
  have w: "withPassphrase demo_host (SSLCertFile demo_config) (SSLKeyFile demo_config)
      (SSLKeyFilePassPhrase demo_config)
     = Return (Some \<lparr>CertificateChain = [''CERT''], PrivateKey = ''RSA PRIVATE KEY:der''\<rparr>, None)"
    using demo_withPassphrase by (simp add: demo_config_def)
  obtain cfg1 where
    h1: "NewFromCfgMap_cfg demo_host (demo_config\<lparr>SSLHostname := ''db.local''\<rparr>) None
           = Return (Inr cfg1)"
    using demo_cfg_exists by blast
  obtain cfg2 where
    h2: "NewFromCfgMap_cfg demo_host (demo_config\<lparr>SSLHostname := []\<rparr>) None
           = Return (Inr cfg2)"
    using demo_cfg_exists by blast
  have a: "\<exists>t. TLSConfig (ConnConfig cfg1) = Some t
      \<and> Certificates t = [\<lparr>CertificateChain = [''CERT''], PrivateKey = ''RSA PRIVATE KEY:der''\<rparr>]
      \<and> ServerName t = ''db.local'' \<and> \<not> InsecureSkipVerify t"
    using NewFromCfgMap_verification_policy [OF h1] by (auto simp: w)
  have b: "\<exists>t. TLSConfig (ConnConfig cfg2) = Some t
      \<and> Certificates t = [\<lparr>CertificateChain = [''CERT''], PrivateKey = ''RSA PRIVATE KEY:der''\<rparr>]
      \<and> InsecureSkipVerify t"
    using NewFromCfgMap_verification_policy [OF h2] by (auto simp: w)
  from a b h1 h2 show ?thesis by blast
qed

text \<open>
  Claim C6. Every execution of the pool initializer is to end with a pool and a nil
  error, or with a nil pool and an error returned to the caller, also when loading the
  identity fails. On the sample host with the empty key file the initializer does not
  return at all: the panic of the identity loader goes through it.
\<close>

theorem NewFromCfgMap_without_PEM_block_panics:
  "NewFromCfgMap demo_host demo_ctx (demo_config\<lparr>SSLKeyFile := ''empty.key''\<rparr>) None = Panic"
  by (simp add: NewFromCfgMap_def NewFromCfgMap_cfg_def NewFromCfgMap_xPool_def demo_host_def
       demo_config_def withPassphrase_def x509_DecryptPEMBlock_def demo_files_def
       demo_pem_Decode_def AppendCertsFromPEM_def NewCertPool_def)

text \<open>
  Claim C7. With a non-empty CA path whose file can be read, the trust store is exactly
  the set of certificates found in that file, whatever the system trust store is; when
  none is found, the error \<open>can't add ca cert to cert pool\<close> is returned, by the pool
  initializer too; and the TLS configuration of an assembled pool configuration has
  that set as its root CAs.
\<close>

theorem NewFromCfgMap_trust_store_from_bundle:
  assumes "SSLCAFile config \<noteq> []"
    and "ReadFile e (SSLCAFile config) = Inr CAcert"
  shows "NewFromCfgMap_xPool e config =
           (if certsFromPEM e CAcert = [] then Inl ''can't add ca cert to cert pool''
            else Inr (set (certsFromPEM e CAcert)))
       \<and> NewFromCfgMap_xPool (e\<lparr>SystemCertPool := s\<rparr>) config = NewFromCfgMap_xPool e config
       \<and> (certsFromPEM e CAcert = [] \<longrightarrow>
            (\<forall>cfg0. ParseConfig e (NewFromCfgMap_uri config) = Inr cfg0 \<longrightarrow>
               NewFromCfgMap e ctx config fn
                 = Return (None, Some ''can't add ca cert to cert pool'')))
       \<and> (\<forall>cfg. NewFromCfgMap_cfg e config fn = Return (Inr cfg) \<longrightarrow>
            (\<exists>t. TLSConfig (ConnConfig cfg) = Some t
               \<and> RootCAs t = Some (set (certsFromPEM e CAcert))))"
proof -
  have x: "NewFromCfgMap_xPool e config =
           (if certsFromPEM e CAcert = [] then Inl ''can't add ca cert to cert pool''
            else Inr (set (certsFromPEM e CAcert)))"
    using assms by (simp add: NewFromCfgMap_xPool_def AppendCertsFromPEM_def NewCertPool_def)
  have y: "NewFromCfgMap_xPool (e\<lparr>SystemCertPool := s\<rparr>) config = NewFromCfgMap_xPool e config"
    using assms by (simp add: NewFromCfgMap_xPool_def AppendCertsFromPEM_def)
  have z: "certsFromPEM e CAcert = [] \<longrightarrow>
            (\<forall>cfg0. ParseConfig e (NewFromCfgMap_uri config) = Inr cfg0 \<longrightarrow>
               NewFromCfgMap e ctx config fn
                 = Return (None, Some ''can't add ca cert to cert pool''))"
    using x by (simp add: NewFromCfgMap_def NewFromCfgMap_cfg_def Let_def)
  have w: "\<forall>cfg. NewFromCfgMap_cfg e config fn = Return (Inr cfg) \<longrightarrow>
            (\<exists>t. TLSConfig (ConnConfig cfg) = Some t
               \<and> RootCAs t = Some (set (certsFromPEM e CAcert)))"
  proof (intro allI impI)
    fix cfg assume a: "NewFromCfgMap_cfg e config fn = Return (Inr cfg)"
    then obtain cfg0 xPool cert where
      p: "NewFromCfgMap_xPool e config = Inr xPool"
      and c: "cfg = cfg0\<lparr>AfterConnect := fn,
                ConnConfig := (ConnConfig cfg0)
                  \<lparr>DialFunc := (\<lambda>ctx host addr. net_Dial e host addr),
                   PreferSimpleProtocol := True,
                   ConnectTimeout := 60000000000,
                   TLSConfig := Some (NewFromCfgMap_TLSConfig config cert xPool)\<rparr>\<rparr>"
      by (rule NewFromCfgMap_cfg_parsed)
    from p x have "xPool = set (certsFromPEM e CAcert)"
      by (simp split: if_splits)
    then have "RootCAs (NewFromCfgMap_TLSConfig config cert xPool)
        = Some (set (certsFromPEM e CAcert))"
      by (simp add: NewFromCfgMap_TLSConfig_def Let_def)
    with c show "\<exists>t. TLSConfig (ConnConfig cfg) = Some t
               \<and> RootCAs t = Some (set (certsFromPEM e CAcert))"
      by simp
  qed
  from x y z w show ?thesis by blast
qed

theorem NewFromCfgMap_trust_store_from_bundle_witness:
  "SSLCAFile demo_config \<noteq> []
   \<and> ReadFile demo_host (SSLCAFile demo_config) = Inr ''CA-BUNDLE''
   \<and> NewFromCfgMap_xPool demo_host demo_config = Inr {''CA1'', ''CA2''}
   \<and> NewFromCfgMap_xPool (demo_host\<lparr>SystemCertPool := Inl ''no system roots''\<rparr>) demo_config
       = Inr {''CA1'', ''CA2''}
   \<and> (\<exists>cfg t. NewFromCfgMap_cfg demo_host demo_config None = Return (Inr cfg)
         \<and> TLSConfig (ConnConfig cfg) = Some t \<and> RootCAs t = Some {''CA1'', ''CA2''})
   \<and> SSLCAFile (demo_config\<lparr>SSLCAFile := ''none.pem''\<rparr>) \<noteq> []
   \<and> ReadFile demo_host (SSLCAFile (demo_config\<lparr>SSLCAFile := ''none.pem''\<rparr>)) = Inr ''hello''
   \<and> certsFromPEM demo_host ''hello'' = []
   \<and> NewFromCfgMap demo_host demo_ctx (demo_config\<lparr>SSLCAFile := ''none.pem''\<rparr>) None
       = Return (None, Some ''can't add ca cert to cert pool'')"
proof -
  have n1: "SSLCAFile demo_config \<noteq> []" by (simp add: demo_config_def)
  have r1: "ReadFile demo_host (SSLCAFile demo_config) = Inr ''CA-BUNDLE''"
    by (simp add: demo_host_def demo_files_def demo_config_def)
  have n2: "SSLCAFile (demo_config\<lparr>SSLCAFile := ''none.pem''\<rparr>) \<noteq> []" by simp
  have r2: "ReadFile demo_host (SSLCAFile (demo_config\<lparr>SSLCAFile := ''none.pem''\<rparr>))
      = Inr ''hello''"
    by (simp add: demo_host_def demo_files_def)
  have c1: "certsFromPEM demo_host ''CA-BUNDLE'' = [''CA1'', ''CA2'']"
    by (simp add: demo_host_def)
  have c2: "certsFromPEM demo_host ''hello'' = []"
    by (simp add: demo_host_def)
  have p: "\<And>uri. ParseConfig demo_host uri = Inr (demo_cfg0 uri)"
    by (simp add: demo_host_def)
  obtain cfg where h: "NewFromCfgMap_cfg demo_host demo_config None = Return (Inr cfg)"
    using demo_cfg_exists [of "SSLHostname demo_config"] by auto
  note t1 = NewFromCfgMap_trust_store_from_bundle
    [OF n1 r1, of "Inl ''no system roots''" demo_ctx None]
  note t2 = NewFromCfgMap_trust_store_from_bundle
    [OF n2 r2, of "Inl ''no system roots''" demo_ctx None]
  have a: "NewFromCfgMap_xPool demo_host demo_config = Inr {''CA1'', ''CA2''}"
    using t1 by (simp add: c1)
  have b: "NewFromCfgMap_xPool (demo_host\<lparr>SystemCertPool := Inl ''no system roots''\<rparr>)
      demo_config = Inr {''CA1'', ''CA2''}"
    using t1 by (simp add: c1)
  have c: "\<exists>t. TLSConfig (ConnConfig cfg) = Some t \<and> RootCAs t = Some {''CA1'', ''CA2''}"
    using t1 h by (simp add: c1)
  have d: "NewFromCfgMap demo_host demo_ctx (demo_config\<lparr>SSLCAFile := ''none.pem''\<rparr>) None
       = Return (None, Some ''can't add ca cert to cert pool'')"
    using t2 by (simp add: c2 p)
  from n1 r1 a b c h n2 r2 c2 d show ?thesis by blast
qed

text \<open>
  Claim C10. The dial function of an assembled pool configuration does not look at its
  context: for any two contexts it performs the same plain \<^verbatim>\<open>net.Dial\<close> of the
  network and address.
\<close>

theorem NewFromCfgMap_dial_ignores_context:
  assumes "NewFromCfgMap_cfg e config fn = Return (Inr cfg)"
  shows "DialFunc (ConnConfig cfg) c1 network addr = DialFunc (ConnConfig cfg) c2 network addr
       \<and> DialFunc (ConnConfig cfg) c1 network addr = net_Dial e network addr"
proof -
  from assms obtain cfg0 xPool cert where
    "cfg = cfg0\<lparr>AfterConnect := fn,
                ConnConfig := (ConnConfig cfg0)
                  \<lparr>DialFunc := (\<lambda>ctx host addr. net_Dial e host addr),
                   PreferSimpleProtocol := True,
                   ConnectTimeout := 60000000000,
                   TLSConfig := Some (NewFromCfgMap_TLSConfig config cert xPool)\<rparr>\<rparr>"
    by (rule NewFromCfgMap_cfg_parsed)
  then show ?thesis by simp
qed

theorem NewFromCfgMap_dial_ignores_context_witness:
  "\<exists>cfg. NewFromCfgMap_cfg demo_host demo_config None = Return (Inr cfg)
     \<and> DialFunc (ConnConfig cfg) \<lparr>ctx_done = True, ctx_deadline = Some 0\<rparr> ''tcp'' ''db:5432''
         = DialFunc (ConnConfig cfg) \<lparr>ctx_done = False, ctx_deadline = None\<rparr> ''tcp'' ''db:5432''
     \<and> DialFunc (ConnConfig cfg) \<lparr>ctx_done = True, ctx_deadline = Some 0\<rparr> ''tcp'' ''db:5432''
         = Inr (NetConn 7)"
proof -
  obtain cfg where h: "NewFromCfgMap_cfg demo_host demo_config None = Return (Inr cfg)"
    using demo_cfg_exists [of "SSLHostname demo_config"] by auto
  have n: "net_Dial demo_host ''tcp'' ''db:5432'' = Inr (NetConn 7)"
    by (simp add: demo_host_def)
  from NewFromCfgMap_dial_ignores_context [OF h,
      of "\<lparr>ctx_done = True, ctx_deadline = Some 0\<rparr>" "''tcp''" "''db:5432''"
         "\<lparr>ctx_done = False, ctx_deadline = None\<rparr>"] n h
  show ?thesis by auto
qed

section \<open>Properties of validation\<close>

lemma validate_unchecked:
  "\<not> fieldsRequiredByDefault g \<Longrightarrow> validate g c = None"
  by (simp add: validate_def ValidateStruct_def ConfigMap_fields_def typeCheck_def Tag_Get_def)

lemma validate_required_by_default:
  "fieldsRequiredByDefault g \<Longrightarrow> validate g c \<noteq> None"
  by (simp add: validate_def ValidateStruct_def ConfigMap_fields_def typeCheck_def Tag_Get_def)

text \<open>
  Claim C9. Validation is to accept exactly the descriptors in which every field other
  than the CA path and the expected host name is present. The struct tags of
  \<^verbatim>\<open>ConfigMap\<close> are \<^verbatim>\<open>validate:"required"\<close>, and the validation library reads the
  tag \<^verbatim>\<open>valid\<close>: no field is checked, and a descriptor without a database name is
  accepted, which the same field tagged \<^verbatim>\<open>valid:"required"\<close> would not be.
\<close>

theorem validate_accepts_missing_DbName:
  "DbName (demo_config\<lparr>DbName := []\<rparr>) = []
   \<and> validate demo_govalidator (demo_config\<lparr>DbName := []\<rparr>) = None
   \<and> typeCheck demo_govalidator (''DbName'', [(''valid'', ''required'')], StringVal [])
       = Some ''DbName: non zero value required''"
  by (simp add: validate_def ValidateStruct_def ConfigMap_fields_def typeCheck_def Tag_Get_def
       demo_govalidator_def)

end
